theory Spec2Isabelle
  imports Main "HOL-Library.Word"
begin

section \<open>Data model of nimuv.c\<close>

text \<open>
  The file \<^verbatim>\<open>nimuv.c\<close> is glue between libuv and an HTTP parser written in Nim. Its
  functions are callbacks: they read and write one field of the client structure and
  otherwise call into libuv, the C library and the parser. The model keeps the client
  structure as a record and writes every external call into a trace, in program order.
\<close>

type_synonym byte = "8 word"
type_synonym addr = nat

text \<open>
  A \<^verbatim>\<open>char*\<close>: the address it holds and the bytes readable from that address on, up to
  the end of the object it points into. A read that runs off those bytes is undefined
  behaviour in C.
\<close>

datatype cptr = Ptr (addr_of: addr) (bytes_at: "byte list")

text \<open>
  \<^verbatim>\<open>client_t\<close> is declared in \<^verbatim>\<open>nimuv.h\<close>; the record has the three members the source
  touches: the embedded \<^verbatim>\<open>uv_tcp_t handle\<close> and \<^verbatim>\<open>uv_write_t req\<close> (libuv objects, kept
  by their identity only) and the pointer \<^verbatim>\<open>nim_request\<close>, where \<open>None\<close> is \<^verbatim>\<open>NULL\<close>.
\<close>

record client_t =
  handle :: nat
  req :: nat
  nim_request :: "addr option"

record uv_buf_t =
  base :: cptr
  len :: nat

text \<open>
  libuv declares \<^verbatim>\<open>uv_buf_init(char* base, unsigned int len)\<close>: whatever length the
  caller computes is converted to 32 bits on the way in, that is, reduced modulo \<open>2 ^ 32\<close>.
\<close>

definition uv_buf_init :: "cptr \<Rightarrow> nat \<Rightarrow> uv_buf_t" where
  "uv_buf_init b n = \<lparr>base = b, len = n mod 2 ^ 32\<rparr>"


text \<open>The external calls the source makes, with the arguments it passes.\<close>

datatype call =
    Call_http_readheader client_t cptr int
  | Call_http_continue addr cptr int
  | Call_http_end addr
  | Call_uv_close nat
  | Call_uv_write nat nat uv_buf_t
  | Call_fprintf_stderr string
  | Call_free addr
  | Call_uv_default_loop
  | Call_uv_tcp_init
  | Call_uv_ip4_addr string int
  | Call_uv_tcp_bind
  | Call_uv_listen int
  | Call_uv_run

text \<open>
  What the external calls return is not decided by \<^verbatim>\<open>nimuv.c\<close>. Each returning call is a
  parameter: a function of the whole history of calls up to and including the call
  itself. Along one execution every call has a history of its own, so any sequence of
  answers is some such function, and a theorem for all \<open>externs\<close> holds for every parser
  and every behaviour of libuv.
\<close>

record externs =
  http_readheader :: "call list \<Rightarrow> addr option"
  http_continue :: "call list \<Rightarrow> bool"
  uv_write :: "call list \<Rightarrow> int"
  uv_tcp_bind :: "call list \<Rightarrow> int"
  uv_listen :: "call list \<Rightarrow> int"
  uv_strerror :: "int \<Rightarrow> string"

record world =
  client :: client_t
  trace :: "call list"

definition emit :: "call \<Rightarrow> world \<Rightarrow> world" where
  "emit c w = w\<lparr>trace := trace w @ [c]\<rparr>"

section \<open>Functions of nimuv.c\<close>

definition end_response :: "world \<Rightarrow> world" where
  "end_response w = emit (Call_uv_close (handle (client w))) w"

definition on_read :: "externs \<Rightarrow> int \<Rightarrow> uv_buf_t \<Rightarrow> world \<Rightarrow> world" where
  "on_read X nread buf w =
     (let w1 =
        (if nread \<ge> 0 then
           (case nim_request (client w) of
              None \<Rightarrow>
                (let w' = emit (Call_http_readheader (client w) (base buf) nread) w
                 in w'\<lparr>client := (client w')\<lparr>nim_request := http_readheader X (trace w')\<rparr>\<rparr>)
            | Some h \<Rightarrow>
                (let w' = emit (Call_http_continue h (base buf) nread) w
                 in if \<not> http_continue X (trace w')
                    then w'\<lparr>client := (client w')\<lparr>nim_request := None\<rparr>\<rparr>
                    else w'))
         else
           (let w' = (case nim_request (client w) of
                        None \<Rightarrow> w
                      | Some h \<Rightarrow> emit (Call_http_end h) w)
            in end_response w'))
      in emit (Call_free (addr_of (base buf))) w1)"

text \<open>
  \<^verbatim>\<open>strlen\<close> walks the bytes until the first NUL. A buffer with no NUL in it is not a
  C string: the walk leaves the object, which is undefined, and the model says \<open>None\<close>.
\<close>

fun strlen :: "byte list \<Rightarrow> nat option" where
  "strlen [] = None"
| "strlen (c # cs) = (if c = 0 then Some 0 else map_option Suc (strlen cs))"

text \<open>
  \<^verbatim>\<open>send_response\<close> hands the \<^verbatim>\<open>size_t\<close> that \<^verbatim>\<open>strlen\<close> returns to \<^verbatim>\<open>uv_buf_init\<close>,
  whose parameter is an \<^verbatim>\<open>unsigned int\<close>.
\<close>

definition send_response :: "externs \<Rightarrow> cptr \<Rightarrow> world \<Rightarrow> world option" where
  "send_response X buffer w =
     (case strlen (bytes_at buffer) of
        None \<Rightarrow> None
      | Some n \<Rightarrow>
          (let resp_buffer = uv_buf_init buffer n;
               w1 = emit (Call_uv_write (req (client w)) (handle (client w)) resp_buffer) w;
               r = uv_write X (trace w1)
           in Some
             (if r \<noteq> 0 then
                (let w2 = emit (Call_fprintf_stderr (uv_strerror X r @ [CHR 0x0A])) w1;
                     w3 = (case nim_request (client w2) of
                             None \<Rightarrow> w2
                           | Some h \<Rightarrow> emit (Call_http_end h) w2)
                 in emit (Call_uv_close (handle (client w3))) w3)
              else w1)))"

text \<open>
  \<^verbatim>\<open>start_server\<close> touches the two globals only through libuv, so its model is the
  sequence of calls it makes. The last of them, \<^verbatim>\<open>uv_run\<close>, is the reactor loop; what
  the loop then delivers is the subject of \<open>run\<close> below.
\<close>

definition start_server :: "externs \<Rightarrow> string \<Rightarrow> int \<Rightarrow> call list \<Rightarrow> call list" where
  "start_server X ip port tr =
     (let tr1 = tr @ [Call_uv_default_loop, Call_uv_tcp_init, Call_uv_ip4_addr ip port];
          tr2 = tr1 @ [Call_uv_tcp_bind];
          r = uv_tcp_bind X tr2;
          tr3 = (if r \<noteq> 0 then tr2 @ [Call_fprintf_stderr (uv_strerror X r @ [CHR 0x0A])]
                 else tr2);
          tr4 = tr3 @ [Call_uv_listen 128];
          r' = uv_listen X tr4;
          tr5 = (if r' \<noteq> 0 then tr4 @ [Call_fprintf_stderr (uv_strerror X r' @ [CHR 0x0A])]
                 else tr4)
      in tr5 @ [Call_uv_run])"

section \<open>Events delivered to one connection\<close>

text \<open>
  Three things happen to a connection after it is accepted: libuv delivers a read
  (\<^verbatim>\<open>on_read\<close>), the Nim side submits a response (\<^verbatim>\<open>send_response\<close>), or the Nim side
  ends the response (\<^verbatim>\<open>end_response\<close>). A run delivers a list of them in order.
\<close>

datatype event =
    Ev_read int uv_buf_t
  | Ev_send cptr
  | Ev_end

fun deliver :: "externs \<Rightarrow> event \<Rightarrow> world \<Rightarrow> world option" where
  "deliver X (Ev_read nread buf) w = Some (on_read X nread buf w)"
| "deliver X (Ev_send buffer) w = send_response X buffer w"
| "deliver X Ev_end w = Some (end_response w)"

fun run :: "externs \<Rightarrow> event list \<Rightarrow> world \<Rightarrow> world option" where
  "run X [] w = Some w"
| "run X (ev # evs) w =
     (case deliver X ev w of None \<Rightarrow> None | Some w' \<Rightarrow> run X evs w')"

text \<open>Whether the write that \<^verbatim>\<open>send_response\<close> submits in world \<open>w\<close> is refused.\<close>

definition write_fails :: "externs \<Rightarrow> world \<Rightarrow> cptr \<Rightarrow> bool" where
  "write_fails X w buffer =
     (case strlen (bytes_at buffer) of
        None \<Rightarrow> False
      | Some n \<Rightarrow>
          uv_write X (trace w @
            [Call_uv_write (req (client w)) (handle (client w)) (uv_buf_init buffer n)]) \<noteq> 0)"

text \<open>The events that tear the connection down: a read error, a refused write, an end.\<close>

fun closing :: "externs \<Rightarrow> world \<Rightarrow> event \<Rightarrow> bool" where
  "closing X w (Ev_read nread buf) = (nread < 0)"
| "closing X w (Ev_send buffer) = write_fails X w buffer"
| "closing X w Ev_end = True"

fun closings :: "externs \<Rightarrow> event list \<Rightarrow> world \<Rightarrow> nat" where
  "closings X [] w = 0"
| "closings X (ev # evs) w =
     (if closing X w ev then 1 else 0) +
     (case deliver X ev w of None \<Rightarrow> 0 | Some w' \<Rightarrow> closings X evs w')"

text \<open>The request handle stored in the connection, as a list of at most one element.\<close>

definition stored :: "world \<Rightarrow> addr list" where
  "stored w = (case nim_request (client w) of None \<Rightarrow> [] | Some h \<Rightarrow> [h])"

text \<open>The events that finalize: a read error or a refused write, not an end.\<close>

fun finalizing :: "externs \<Rightarrow> world \<Rightarrow> event \<Rightarrow> bool" where
  "finalizing X w (Ev_read nread buf) = (nread < 0)"
| "finalizing X w (Ev_send buffer) = write_fails X w buffer"
| "finalizing X w Ev_end = False"

fun finalized :: "externs \<Rightarrow> event list \<Rightarrow> world \<Rightarrow> addr list" where
  "finalized X [] w = []"
| "finalized X (ev # evs) w =
     (if finalizing X w ev then stored w else []) @
     (case deliver X ev w of None \<Rightarrow> [] | Some w' \<Rightarrow> finalized X evs w')"

text \<open>
  Reading a trace: the handles given to \<^verbatim>\<open>http_end\<close>, the sockets given to
  \<^verbatim>\<open>uv_close\<close>, the buffers given to \<^verbatim>\<open>uv_write\<close> and the addresses given to \<^verbatim>\<open>free\<close>, each in call order.
\<close>

fun http_ends :: "call list \<Rightarrow> addr list" where
  "http_ends [] = []"
| "http_ends (Call_http_end h # cs) = h # http_ends cs"
| "http_ends (c # cs) = http_ends cs"

fun uv_closes :: "call list \<Rightarrow> nat list" where
  "uv_closes [] = []"
| "uv_closes (Call_uv_close k # cs) = k # uv_closes cs"
| "uv_closes (c # cs) = uv_closes cs"


fun frees :: "call list \<Rightarrow> addr list" where
  "frees [] = []"
| "frees (Call_free a # cs) = a # frees cs"
| "frees (c # cs) = frees cs"

section \<open>Concrete inputs\<close>

text \<open>
  A parser that wants more data (handle 7) with a libuv that refuses everything
  (\<open>-32\<close>, \<open>-98\<close>), and a parser that is done at once with a libuv that accepts.
\<close>

definition ext_refusing :: externs where
  "ext_refusing =
     \<lparr>http_readheader = (\<lambda>_. Some 7), http_continue = (\<lambda>_. True),
      uv_write = (\<lambda>_. - 32), uv_tcp_bind = (\<lambda>_. - 98), uv_listen = (\<lambda>_. - 98),
      uv_strerror = (\<lambda>_. ''error'')\<rparr>"

definition ext_accepting :: externs where
  "ext_accepting =
     \<lparr>http_readheader = (\<lambda>_. None), http_continue = (\<lambda>_. False),
      uv_write = (\<lambda>_. 0), uv_tcp_bind = (\<lambda>_. 0), uv_listen = (\<lambda>_. 0),
      uv_strerror = (\<lambda>_. ''error'')\<rparr>"

definition fresh_client :: world where
  "fresh_client = \<lparr>client = \<lparr>handle = 1, req = 2, nim_request = None\<rparr>, trace = []\<rparr>"

definition busy_client :: world where
  "busy_client = \<lparr>client = \<lparr>handle = 1, req = 2, nim_request = Some 7\<rparr>, trace = []\<rparr>"

definition chunk :: uv_buf_t where
  "chunk = \<lparr>base = Ptr 4096 [0x47, 0x45, 0x54], len = 65536\<rparr>"

definition reply :: cptr where
  "reply = Ptr 8192 [0x48, 0x69, 0, 0x21]"



section \<open>Reading traces\<close>

lemma http_ends_append: "http_ends (xs @ ys) = http_ends xs @ http_ends ys"
  by (induction xs rule: http_ends.induct) simp_all

lemma uv_closes_append: "uv_closes (xs @ ys) = uv_closes xs @ uv_closes ys"
  by (induction xs rule: uv_closes.induct) simp_all


lemma frees_append: "frees (xs @ ys) = frees xs @ frees ys"
  by (induction xs rule: frees.induct) simp_all

lemma http_ends_map: "http_ends (map Call_http_end hs) = hs"
  by (induction hs) simp_all

lemma uv_closes_map: "uv_closes (map Call_http_end hs) = []"
  by (induction hs) simp_all


section \<open>The read handler\<close>

text \<open>
  C4. A successful read (\<open>nread \<ge> 0\<close>) on a connection with no request in progress calls
  \<^verbatim>\<open>http_readheader\<close> with the chunk and stores what it returns in \<^verbatim>\<open>nim_request\<close>, a
  handle or \<^verbatim>\<open>NULL\<close>; the only other call is the release of the buffer, so there is no
  finalize and no close on this path.
\<close>

theorem on_read_begin:
  assumes "0 \<le> nread" and "nim_request (client w) = None"
  shows "on_read X nread buf w =
           \<lparr>client = (client w)\<lparr>nim_request :=
               http_readheader X (trace w @ [Call_http_readheader (client w) (base buf) nread])\<rparr>,
            trace = trace w @ [Call_http_readheader (client w) (base buf) nread,
                               Call_free (addr_of (base buf))]\<rparr>"
  using assms by (simp add: on_read_def emit_def Let_def)

text \<open>A three-byte chunk that leaves the request open, and an empty one that completes it.\<close>

theorem on_read_begin_witness:
  "(0::int) \<le> 3 \<and> nim_request (client fresh_client) = None \<and>
   on_read ext_refusing 3 chunk fresh_client =
     \<lparr>client = \<lparr>handle = 1, req = 2, nim_request = Some 7\<rparr>,
      trace = [Call_http_readheader \<lparr>handle = 1, req = 2, nim_request = None\<rparr>
                 (Ptr 4096 [0x47, 0x45, 0x54]) 3, Call_free 4096]\<rparr> \<and>
   (0::int) \<le> 0 \<and>
   on_read ext_accepting 0 chunk fresh_client =
     \<lparr>client = \<lparr>handle = 1, req = 2, nim_request = None\<rparr>,
      trace = [Call_http_readheader \<lparr>handle = 1, req = 2, nim_request = None\<rparr>
                 (Ptr 4096 [0x47, 0x45, 0x54]) 0, Call_free 4096]\<rparr>"
  using on_read_begin [of 3 fresh_client ext_refusing chunk]
        on_read_begin [of 0 fresh_client ext_accepting chunk]
  by (simp add: fresh_client_def ext_refusing_def ext_accepting_def chunk_def)

text \<open>
  C5. A successful read on a connection with a request in progress calls
  \<^verbatim>\<open>http_continue\<close> with the chunk on the stored handle. If it answers false the field
  becomes \<^verbatim>\<open>NULL\<close>, if it answers true the handle stays. \<^verbatim>\<open>http_readheader\<close> is not
  called and nothing is closed: the only other call is the release of the buffer.
\<close>

theorem on_read_continue:
  assumes "0 \<le> nread" and "nim_request (client w) = Some h"
  shows "on_read X nread buf w =
           \<lparr>client = (client w)\<lparr>nim_request :=
               (if http_continue X (trace w @ [Call_http_continue h (base buf) nread])
                then Some h else None)\<rparr>,
            trace = trace w @ [Call_http_continue h (base buf) nread,
                               Call_free (addr_of (base buf))]\<rparr>"
  using assms by (simp add: on_read_def emit_def Let_def)

theorem on_read_continue_witness:
  "(0::int) \<le> 3 \<and> nim_request (client busy_client) = Some 7 \<and>
   on_read ext_refusing 3 chunk busy_client =
     \<lparr>client = \<lparr>handle = 1, req = 2, nim_request = Some 7\<rparr>,
      trace = [Call_http_continue 7 (Ptr 4096 [0x47, 0x45, 0x54]) 3, Call_free 4096]\<rparr> \<and>
   on_read ext_accepting 3 chunk busy_client =
     \<lparr>client = \<lparr>handle = 1, req = 2, nim_request = None\<rparr>,
      trace = [Call_http_continue 7 (Ptr 4096 [0x47, 0x45, 0x54]) 3, Call_free 4096]\<rparr>"
  using on_read_continue [of 3 busy_client 7 ext_refusing chunk]
        on_read_continue [of 3 busy_client 7 ext_accepting chunk]
  by (simp add: busy_client_def ext_refusing_def ext_accepting_def chunk_def)

text \<open>
  C6. A read that reports an error or the end of the stream (\<open>nread < 0\<close>) calls
  \<^verbatim>\<open>http_end\<close> on the stored handle when there is one, and then, with or without a
  request in progress, asks libuv to close the socket.
\<close>

theorem on_read_error:
  assumes "nread < 0"
  shows "trace (on_read X nread buf w) =
           trace w @ map Call_http_end (stored w) @
           [Call_uv_close (handle (client w)), Call_free (addr_of (base buf))]"
  using assms
  by (simp add: on_read_def end_response_def emit_def stored_def split: option.split)

theorem on_read_error_witness:
  "(- 4095::int) < 0 \<and>
   trace (on_read ext_refusing (- 4095) chunk busy_client) =
     [Call_http_end 7, Call_uv_close 1, Call_free 4096] \<and>
   trace (on_read ext_refusing (- 4095) chunk fresh_client) =
     [Call_uv_close 1, Call_free 4096]"
  using on_read_error [of "- 4095" ext_refusing chunk busy_client]
        on_read_error [of "- 4095" ext_refusing chunk fresh_client]
  by (simp add: busy_client_def fresh_client_def chunk_def stored_def)

text \<open>
  C7. Whatever branch the read handler takes, it frees the buffer it was handed exactly
  once, and that is the last thing it does.
\<close>

theorem on_read_frees_buffer:
  "frees (trace (on_read X nread buf w)) = frees (trace w) @ [addr_of (base buf)] \<and>
   last (trace (on_read X nread buf w)) = Call_free (addr_of (base buf))"
  by (simp add: on_read_def end_response_def emit_def frees_append Let_def
           split: option.split)

theorem on_read_frees_buffer_witness:
  "frees (trace (on_read ext_refusing 3 chunk fresh_client)) = [4096] \<and>
   frees (trace (on_read ext_accepting 0 chunk busy_client)) = [4096] \<and>
   frees (trace (on_read ext_refusing (- 4095) chunk busy_client)) = [4096] \<and>
   frees (trace (on_read ext_refusing (- 4095) chunk fresh_client)) = [4096]"
  using on_read_frees_buffer [of ext_refusing 3 chunk fresh_client]
        on_read_frees_buffer [of ext_accepting 0 chunk busy_client]
        on_read_frees_buffer [of ext_refusing "- 4095" chunk busy_client]
        on_read_frees_buffer [of ext_refusing "- 4095" chunk fresh_client]
  by (simp add: fresh_client_def busy_client_def chunk_def)

text \<open>
  C9. After a read error on a connection with a request in progress the field
  \<^verbatim>\<open>nim_request\<close> still holds the handle that was just given to \<^verbatim>\<open>http_end\<close>; the close
  has been requested and the client structure is as it was.
\<close>

theorem on_read_error_keeps_request:
  assumes "nread < 0" and "nim_request (client w) = Some h"
  shows "nim_request (client (on_read X nread buf w)) = Some h \<and>
         client (on_read X nread buf w) = client w \<and>
         http_ends (trace (on_read X nread buf w)) = http_ends (trace w) @ [h] \<and>
         uv_closes (trace (on_read X nread buf w)) =
           uv_closes (trace w) @ [handle (client w)]"
  using assms
  by (simp add: on_read_def end_response_def emit_def http_ends_append uv_closes_append)

theorem on_read_error_keeps_request_witness:
  "(- 4095::int) < 0 \<and> nim_request (client busy_client) = Some 7 \<and>
   nim_request (client (on_read ext_refusing (- 4095) chunk busy_client)) = Some 7 \<and>
   http_ends (trace (on_read ext_refusing (- 4095) chunk busy_client)) = [7] \<and>
   uv_closes (trace (on_read ext_refusing (- 4095) chunk busy_client)) = [1]"
  using on_read_error_keeps_request [of "- 4095" busy_client 7 ext_refusing chunk]
  by (simp add: busy_client_def)

section \<open>Sending a response\<close>


lemma send_response_shape:
  assumes "strlen (bytes_at buffer) = Some n"
  shows "send_response X buffer w =
     Some \<lparr>client = client w,
           trace = trace w @
             Call_uv_write (req (client w)) (handle (client w)) (uv_buf_init buffer n) #
             (if write_fails X w buffer
              then Call_fprintf_stderr
                     (uv_strerror X (uv_write X (trace w @
                        [Call_uv_write (req (client w)) (handle (client w))
                           (uv_buf_init buffer n)])) @ [CHR 0x0A]) #
                   map Call_http_end (stored w) @ [Call_uv_close (handle (client w))]
              else [])\<rparr>"
  using assms
  by (simp add: send_response_def write_fails_def emit_def stored_def Let_def
           split: option.split)






text \<open>
  C3, as the code has it. When \<^verbatim>\<open>uv_write\<close> returns non-zero, the error text is printed
  to \<^verbatim>\<open>stderr\<close> once, \<^verbatim>\<open>http_end\<close> is called on the stored handle when there is one,
  and the close of the socket is requested; the field \<^verbatim>\<open>nim_request\<close> keeps its value.
  When \<^verbatim>\<open>uv_write\<close> returns zero, nothing follows the write and the client structure
  is unchanged.
\<close>

theorem send_response_write_outcome:
  assumes "strlen (bytes_at buffer) = Some n"
    and "wr = Call_uv_write (req (client w)) (handle (client w)) (uv_buf_init buffer n)"
    and "r = uv_write X (trace w @ [wr])"
  shows "send_response X buffer w =
           Some \<lparr>client = client w,
                 trace = trace w @ wr #
                   (if r \<noteq> 0
                    then Call_fprintf_stderr (uv_strerror X r @ [CHR 0x0A]) #
                         map Call_http_end (stored w) @ [Call_uv_close (handle (client w))]
                    else [])\<rparr>"
  unfolding send_response_shape [OF assms(1)]
  using assms by (simp add: write_fails_def)

theorem send_response_write_outcome_witness:
  "strlen (bytes_at reply) = Some 2 \<and>
   send_response ext_refusing reply busy_client =
     Some \<lparr>client = \<lparr>handle = 1, req = 2, nim_request = Some 7\<rparr>,
           trace = [Call_uv_write 2 1 \<lparr>base = reply, len = 2\<rparr>,
                    Call_fprintf_stderr (''error'' @ [CHR 0x0A]),
                    Call_http_end 7, Call_uv_close 1]\<rparr> \<and>
   send_response ext_accepting reply busy_client =
     Some \<lparr>client = \<lparr>handle = 1, req = 2, nim_request = Some 7\<rparr>,
           trace = [Call_uv_write 2 1 \<lparr>base = reply, len = 2\<rparr>]\<rparr>"
proof -
  have n: "strlen (bytes_at reply) = Some 2"
    by (simp add: reply_def)
  show ?thesis
    using n
      send_response_write_outcome [OF n refl refl, where w = busy_client and X = ext_refusing]
      send_response_write_outcome [OF n refl refl, where w = busy_client and X = ext_accepting]
    by (simp add: busy_client_def ext_refusing_def ext_accepting_def uv_buf_init_def
          stored_def)
qed

text \<open>
  C3 as the specification words it asks for the field to be cleared. With handle 7
  stored and the write refused, \<^verbatim>\<open>http_end\<close> is called on 7 and the field still holds 7.
\<close>

theorem send_response_keeps_request_counterexample:
  "send_response ext_refusing reply busy_client =
     Some \<lparr>client = \<lparr>handle = 1, req = 2, nim_request = Some 7\<rparr>,
           trace = [Call_uv_write 2 1 \<lparr>base = reply, len = 2\<rparr>,
                    Call_fprintf_stderr (''error'' @ [CHR 0x0A]),
                    Call_http_end 7, Call_uv_close 1]\<rparr> \<and>
   map_option (nim_request \<circ> client) (send_response ext_refusing reply busy_client)
     \<noteq> Some None"
  by (simp add: send_response_def reply_def busy_client_def ext_refusing_def emit_def
        uv_buf_init_def Let_def)

section \<open>Starting the server\<close>

text \<open>
  C8. \<^verbatim>\<open>start_server\<close> makes the same calls whatever \<^verbatim>\<open>uv_tcp_bind\<close> and \<^verbatim>\<open>uv_listen\<close>
  return: a non-zero result adds one line on \<^verbatim>\<open>stderr\<close> and nothing else. After a failed
  bind \<^verbatim>\<open>uv_listen\<close> is still called with backlog 128, after a failed listen \<^verbatim>\<open>uv_run\<close>
  is still entered, and the function has no result through which a failure could reach
  its caller.
\<close>

theorem start_server_continues:
  "start_server X ip port tr =
     (let pre = tr @ [Call_uv_default_loop, Call_uv_tcp_init, Call_uv_ip4_addr ip port,
                      Call_uv_tcp_bind];
          rb = uv_tcp_bind X pre;
          logb = (if rb = 0 then []
                  else [Call_fprintf_stderr (uv_strerror X rb @ [CHR 0x0A])]);
          mid = pre @ logb @ [Call_uv_listen 128];
          rl = uv_listen X mid;
          logl = (if rl = 0 then []
                  else [Call_fprintf_stderr (uv_strerror X rl @ [CHR 0x0A])])
      in mid @ logl @ [Call_uv_run])"
  by (simp add: start_server_def Let_def)

theorem start_server_continues_witness:
  "start_server ext_refusing ''0.0.0.0'' 8080 [] =
     [Call_uv_default_loop, Call_uv_tcp_init, Call_uv_ip4_addr ''0.0.0.0'' 8080,
      Call_uv_tcp_bind, Call_fprintf_stderr (''error'' @ [CHR 0x0A]),
      Call_uv_listen 128, Call_fprintf_stderr (''error'' @ [CHR 0x0A]),
      Call_uv_run] \<and>
   start_server ext_accepting ''0.0.0.0'' 8080 [] =
     [Call_uv_default_loop, Call_uv_tcp_init, Call_uv_ip4_addr ''0.0.0.0'' 8080,
      Call_uv_tcp_bind, Call_uv_listen 128, Call_uv_run]"
  using start_server_continues [of ext_refusing "''0.0.0.0''" 8080 "[]"]
        start_server_continues [of ext_accepting "''0.0.0.0''" 8080 "[]"]
  by (simp add: ext_refusing_def ext_accepting_def Let_def)

section \<open>Sequences of events\<close>

lemma on_read_handle: "handle (client (on_read X nread buf w)) = handle (client w)"
  by (simp add: on_read_def end_response_def emit_def Let_def split: option.split)

lemma on_read_uv_closes:
  "uv_closes (trace (on_read X nread buf w)) =
     uv_closes (trace w) @ (if nread < 0 then [handle (client w)] else [])"
  by (simp add: on_read_def end_response_def emit_def Let_def uv_closes_append
        split: option.split)

lemma on_read_http_ends:
  "http_ends (trace (on_read X nread buf w)) =
     http_ends (trace w) @ (if nread < 0 then stored w else [])"
  by (simp add: on_read_def end_response_def emit_def Let_def http_ends_append stored_def
        split: option.split)

lemma send_response_client:
  "send_response X buffer w = Some w' \<Longrightarrow> client w' = client w"
  by (auto simp add: send_response_def emit_def Let_def split: option.splits if_splits)

lemma send_response_uv_closes:
  assumes "send_response X buffer w = Some w'"
  shows "uv_closes (trace w') =
           uv_closes (trace w) @ (if write_fails X w buffer then [handle (client w)] else [])"
proof -
  from assms obtain n where n: "strlen (bytes_at buffer) = Some n"
    by (auto simp add: send_response_def split: option.splits)
  from assms show ?thesis
    unfolding send_response_shape [OF n]
    by (auto simp add: uv_closes_append uv_closes_map)
qed

lemma send_response_http_ends:
  assumes "send_response X buffer w = Some w'"
  shows "http_ends (trace w') =
           http_ends (trace w) @ (if write_fails X w buffer then stored w else [])"
proof -
  from assms obtain n where n: "strlen (bytes_at buffer) = Some n"
    by (auto simp add: send_response_def split: option.splits)
  from assms show ?thesis
    unfolding send_response_shape [OF n]
    by (auto simp add: http_ends_append http_ends_map)
qed

lemma deliver_handle:
  "deliver X ev w = Some w' \<Longrightarrow> handle (client w') = handle (client w)"
  by (cases ev)
     (auto simp add: on_read_handle end_response_def emit_def dest: send_response_client)

lemma deliver_uv_closes:
  "deliver X ev w = Some w' \<Longrightarrow>
     uv_closes (trace w') =
       uv_closes (trace w) @ (if closing X w ev then [handle (client w)] else [])"
  by (cases ev)
     (auto simp add: on_read_uv_closes send_response_uv_closes end_response_def emit_def
        uv_closes_append)

lemma deliver_http_ends:
  "deliver X ev w = Some w' \<Longrightarrow>
     http_ends (trace w') =
       http_ends (trace w) @ (if finalizing X w ev then stored w else [])"
  by (cases ev)
     (auto simp add: on_read_http_ends send_response_http_ends end_response_def emit_def
        http_ends_append)

text \<open>
  C1, as the code has it. The client structure has no open/closing state and no call of
  \<^verbatim>\<open>uv_close\<close> is guarded. Each read error, each refused write and each
  \<^verbatim>\<open>end_response\<close> requests the close of the connection's socket exactly once, and no
  other event requests it: over a sequence of events the socket is closed as many times
  as there are such events in it, so at most once when at most one of them is delivered.
\<close>

theorem run_close_requests:
  assumes "run X evs w = Some w'"
  shows "uv_closes (trace w') =
           uv_closes (trace w) @ replicate (closings X evs w) (handle (client w))"
  using assms
proof (induction evs arbitrary: w)
  case Nil
  then show ?case by simp
next
  case (Cons ev evs)
  from Cons.prems obtain w1 where
    step: "deliver X ev w = Some w1" and rest: "run X evs w1 = Some w'"
    by (auto split: option.splits)
  have "uv_closes (trace w') =
          uv_closes (trace w1) @ replicate (closings X evs w1) (handle (client w1))"
    using rest by (rule Cons.IH)
  with step show ?case
    by (simp add: deliver_uv_closes deliver_handle replicate_add)
qed

text \<open>A chunk, then the end of the stream: one teardown event, one close.\<close>

theorem run_close_requests_witness:
  "\<exists>w'. run ext_refusing [Ev_read 3 chunk, Ev_read (- 4095) chunk] fresh_client = Some w' \<and>
         closings ext_refusing [Ev_read 3 chunk, Ev_read (- 4095) chunk] fresh_client = 1 \<and>
         uv_closes (trace w') = [1]"
proof -
  have r: "run ext_refusing [Ev_read 3 chunk, Ev_read (- 4095) chunk] fresh_client =
             Some (on_read ext_refusing (- 4095) chunk
                     (on_read ext_refusing 3 chunk fresh_client))"
    by simp
  have n: "closings ext_refusing [Ev_read 3 chunk, Ev_read (- 4095) chunk] fresh_client = 1"
    by simp
  show ?thesis
    using r n run_close_requests [OF r]
    by (simp add: fresh_client_def)
qed

text \<open>
  C1 as the specification words it allows one close request per connection. A response
  whose write is refused, followed by \<^verbatim>\<open>end_response\<close>, requests the close of socket 1
  twice.
\<close>

theorem close_requested_twice_counterexample:
  "map_option (uv_closes \<circ> trace) (run ext_refusing [Ev_send reply, Ev_end] fresh_client) =
     Some [1, 1]"
  by (simp add: send_response_def end_response_def reply_def fresh_client_def
        ext_refusing_def emit_def uv_buf_init_def Let_def)

text \<open>
  C2, as the code has it. \<^verbatim>\<open>http_end\<close> is called only on the handle stored in
  \<^verbatim>\<open>nim_request\<close>, once at each read error and once at each refused write that finds a
  handle stored, and never by \<^verbatim>\<open>end_response\<close> or by a successful read or write. Over a
  sequence of events the calls of \<^verbatim>\<open>http_end\<close> are exactly those, in order.
\<close>

theorem run_finalizations:
  assumes "run X evs w = Some w'"
  shows "http_ends (trace w') = http_ends (trace w) @ finalized X evs w"
  using assms
proof (induction evs arbitrary: w)
  case Nil
  then show ?case by simp
next
  case (Cons ev evs)
  from Cons.prems obtain w1 where
    step: "deliver X ev w = Some w1" and rest: "run X evs w1 = Some w'"
    by (auto split: option.splits)
  have "http_ends (trace w') = http_ends (trace w1) @ finalized X evs w1"
    using rest by (rule Cons.IH)
  with step show ?case
    by (simp add: deliver_http_ends)
qed

text \<open>A chunk that opens request 7, then the end of the stream: 7 is finalized once.\<close>

theorem run_finalizations_witness:
  "\<exists>w'. run ext_refusing [Ev_read 3 chunk, Ev_read (- 4095) chunk] fresh_client = Some w' \<and>
         finalized ext_refusing [Ev_read 3 chunk, Ev_read (- 4095) chunk] fresh_client = [7] \<and>
         http_ends (trace w') = [7]"
proof -
  have r: "run ext_refusing [Ev_read 3 chunk, Ev_read (- 4095) chunk] fresh_client =
             Some (on_read ext_refusing (- 4095) chunk
                     (on_read ext_refusing 3 chunk fresh_client))"
    by simp
  have n: "finalized ext_refusing [Ev_read 3 chunk, Ev_read (- 4095) chunk] fresh_client = [7]"
    by (simp add: stored_def on_read_def emit_def fresh_client_def ext_refusing_def)
  show ?thesis
    using r n run_finalizations [OF r]
    by (simp add: fresh_client_def)
qed

text \<open>
  C2 as the specification words it allows one \<^verbatim>\<open>http_end\<close> per handle and asks for one
  at every teardown that finds a handle. With request 7 open, two responses whose writes
  are refused finalize 7 twice; and \<^verbatim>\<open>end_response\<close> requests the close with 7 still
  stored and no \<^verbatim>\<open>http_end\<close> at all.
\<close>

theorem finalize_once_counterexample:
  "map_option (http_ends \<circ> trace)
     (run ext_refusing [Ev_read 3 chunk, Ev_send reply, Ev_send reply] fresh_client) =
     Some [7, 7] \<and>
   run ext_refusing [Ev_read 3 chunk, Ev_end] fresh_client =
     Some \<lparr>client = \<lparr>handle = 1, req = 2, nim_request = Some 7\<rparr>,
           trace = [Call_http_readheader \<lparr>handle = 1, req = 2, nim_request = None\<rparr>
                      (Ptr 4096 [0x47, 0x45, 0x54]) 3,
                    Call_free 4096, Call_uv_close 1]\<rparr>"
  by (simp add: on_read_def send_response_def end_response_def reply_def chunk_def
        fresh_client_def ext_refusing_def emit_def uv_buf_init_def Let_def)

end
